theory Spec2Isabelle
  imports Main "HOL-Library.Word"
begin

section \<open>The ArgonOne panel applet (lxpanel/argonone.c)\<close>

text \<open>
  The applet keeps a small model (fan speed, fan-control flag, temperature) in step with
  a daemon on the system bus. The functions embedded here are the bus signal handler
  \<open>argonone_dbus_signal\<close>, the two bus call wrappers, the fan command
  \<open>_argonone_set_fan\<close>, the view refresh \<open>argonone_update_view\<close> and the plugin
  constructor. Everything the C code does to the outside (bus calls, debug messages, view
  refreshes) is appended to a trace, in the order in which the code does it.
\<close>

subsection \<open>Values on the bus\<close>

text \<open>
  A \<open>gdouble\<close> is kept as the 64 bits of its IEEE-754 representation: the applet never
  computes with the temperature, it stores it and hands it to the formatter.
\<close>

type_synonym gint32 = "32 word"
type_synonym gdouble = "64 word"

text \<open>The part of GLib's \<open>GVariant\<close> that the bus contract of the daemon uses.\<close>

datatype gvariant =
    VInt32 gint32
  | VBool bool
  | VDouble gdouble
  | VString string
  | VVariant gvariant
  | VTuple "gvariant list"

fun type_string :: "gvariant \<Rightarrow> string" where
  "type_string (VInt32 n) = ''i''"
| "type_string (VBool b) = ''b''"
| "type_string (VDouble d) = ''d''"
| "type_string (VString s) = ''s''"
| "type_string (VVariant v) = ''v''"
| "type_string (VTuple vs) = ''('' @ concat (map type_string vs) @ '')''"

fun is_tuple :: "gvariant \<Rightarrow> bool" where
  "is_tuple (VTuple vs) = True"
| "is_tuple v = False"

text \<open>A format string \<open>v\<close> hands out the value boxed in the variant.\<close>

fun unbox :: "gvariant \<Rightarrow> gvariant" where
  "unbox (VVariant v) = v"
| "unbox v = v"

fun children :: "gvariant \<Rightarrow> gvariant list" where
  "children (VTuple vs) = map unbox vs"
| "children v = [unbox v]"

text \<open>
  \<open>g_variant_get (value, format, ...)\<close> for the format strings of this file
  (\<open>(sv)\<close>, \<open>i\<close>, \<open>b\<close>, \<open>d\<close>, \<open>(i)\<close>, \<open>(b)\<close>, \<open>(d)\<close>), each of which is a type
  string. GLib checks the value's type against the format first and, on a mismatch,
  returns without writing to any of the output pointers: that is \<open>None\<close> here.
  Otherwise the outputs are written, one per item of the format.
\<close>

definition g_variant_get :: "gvariant \<Rightarrow> string \<Rightarrow> gvariant list option" where
  "g_variant_get val format_string =
     (if type_string val = format_string then Some (children val) else None)"

subsection \<open>The plugin data\<close>

text \<open>
  \<open>ArgonOnePlugin\<close>, without the toolkit handles (\<open>panel\<close>, \<open>settings\<close>, the widgets and
  the \<open>proxy\<close>): they are opaque pointers that the functions below pass on to the toolkit
  and the bus, which the trace stands for.
\<close>

record ArgonOnePlugin =
  show_label :: bool
  include_temperature :: bool
  fan_speed :: gint32
  temperature :: gdouble
  is_fan_control_enabled :: bool

text \<open>
  The code passes the address of a field to \<open>g_variant_get\<close>, as in
  \<open>g_variant_get (value_var, "i", &(aone->fan_speed))\<close>: the field takes the value
  written, and keeps its own when nothing is written.
\<close>

definition store_fan_speed :: "gvariant list option \<Rightarrow> ArgonOnePlugin \<Rightarrow> ArgonOnePlugin" where
  "store_fan_speed out aone =
     (case out of Some [VInt32 n] \<Rightarrow> aone\<lparr>fan_speed := n\<rparr> | _ \<Rightarrow> aone)"

definition store_is_fan_control_enabled :: "gvariant list option \<Rightarrow> ArgonOnePlugin \<Rightarrow> ArgonOnePlugin" where
  "store_is_fan_control_enabled out aone =
     (case out of Some [VBool b] \<Rightarrow> aone\<lparr>is_fan_control_enabled := b\<rparr> | _ \<Rightarrow> aone)"

definition store_temperature :: "gvariant list option \<Rightarrow> ArgonOnePlugin \<Rightarrow> ArgonOnePlugin" where
  "store_temperature out aone =
     (case out of Some [VDouble t] \<Rightarrow> aone\<lparr>temperature := t\<rparr> | _ \<Rightarrow> aone)"

subsection \<open>The view\<close>

text \<open>
  The status text is kept as the arguments of its two \<open>g_snprintf\<close> calls: the speed
  (\<open>None\<close> for the text \<open>" -- "\<close>) and, when it is included, the temperature.
\<close>

datatype status = Status "gint32 option" "gdouble option"

datatype ui_effect =
    Set_taskbar_icon string
  | Set_visible bool
  | Set_label_text status
  | Set_tooltip_text string
  | Set_tooltip_status status

definition icon_name :: "ArgonOnePlugin \<Rightarrow> string" where
  "icon_name aone =
     (if \<not> is_fan_control_enabled aone then ''argonone-fan-paused''
      else if fan_speed aone = 0 then ''argonone-fan''
      else if sint (fan_speed aone) \<le> 50 then ''argonone-fan-medium''
      else ''argonone-fan-high'')"

definition status_of :: "ArgonOnePlugin \<Rightarrow> status" where
  "status_of aone =
     Status (if sint (fan_speed aone) < 0 then None else Some (fan_speed aone))
            (if include_temperature aone then Some (temperature aone) else None)"

definition argonone_update_view :: "ArgonOnePlugin \<Rightarrow> bool \<Rightarrow> bool \<Rightarrow> ui_effect list" where
  "argonone_update_view aone fan_changed config_updated =
     (if fan_changed then [Set_taskbar_icon (icon_name aone)] else []) @
     (if config_updated then [Set_visible (show_label aone)] else []) @
     (if config_updated \<or> fan_changed \<or> include_temperature aone then
        (if show_label aone then
           Set_label_text (status_of aone) #
           (if config_updated then [Set_tooltip_text ''ArgonOne fan''] else [])
         else [Set_tooltip_status (status_of aone)])
      else [])"

subsection \<open>The trace and the daemon\<close>

text \<open>
  What the applet does to the outside, oldest first: a call of a method on the bus proxy
  with the parameters as sent, a debug message, and a call of \<open>argonone_update_view\<close>
  with its two flags and what it did to the widgets.
\<close>

datatype event =
    Dbus_call string "gvariant option"
  | Debug string
  | Update_view bool bool "ui_effect list"

type_synonym world = "event list"

text \<open>
  \<open>g_dbus_proxy_call_sync\<close> either returns a value or returns \<open>NULL\<close> and sets the
  error. The daemon is any function that gives such a reply to a call, and it may answer
  the same call differently over time: its first argument is the number of bus calls the
  applet has made before this one.
\<close>

datatype dbus_reply = Retval gvariant | Failed string

type_synonym daemon = "nat \<Rightarrow> string \<Rightarrow> gvariant option \<Rightarrow> dbus_reply"

fun failed :: "dbus_reply \<Rightarrow> bool" where
  "failed (Failed message) = True"
| "failed (Retval v) = False"

fun is_dbus_call :: "event \<Rightarrow> bool" where
  "is_dbus_call (Dbus_call m p) = True"
| "is_dbus_call e = False"

fun is_update_view :: "event \<Rightarrow> bool" where
  "is_update_view (Update_view f c es) = True"
| "is_update_view e = False"

fun is_debug :: "event \<Rightarrow> bool" where
  "is_debug (Debug m) = True"
| "is_debug e = False"

definition dbus_calls :: "world \<Rightarrow> event list" where
  "dbus_calls w = filter is_dbus_call w"

definition view_calls :: "world \<Rightarrow> event list" where
  "view_calls w = filter is_update_view w"

definition debug_log :: "world \<Rightarrow> event list" where
  "debug_log w = filter is_debug w"

subsection \<open>The signal handler\<close>

text \<open>
  \<open>argonone_dbus_signal\<close>. The sender name is \<open>None\<close> for \<open>NULL\<close>. When the parameters
  of a \<open>NotifyValue\<close> signal are not of type \<open>(sv)\<close>, the C code goes on to read the two
  local pointers that \<open>g_variant_get\<close> did not set: the handler has no defined result
  there, which is \<open>None\<close>.
\<close>

definition argonone_dbus_signal ::
  "ArgonOnePlugin \<Rightarrow> world \<Rightarrow> string option \<Rightarrow> string \<Rightarrow> gvariant \<Rightarrow> (ArgonOnePlugin \<times> world) option"
where
  "argonone_dbus_signal aone w sender_name signal_name parameters =
     (case sender_name of
        None \<Rightarrow> Some (aone, w)
      | Some sender \<Rightarrow>
          if signal_name = ''NotifyValue'' then
            (case g_variant_get parameters ''(sv)'' of
               Some [VString event_name, value_var] \<Rightarrow>
                 (let (aone', fan_changed) =
                    (if event_name = ''fan_speed'' then
                       (store_fan_speed (g_variant_get value_var ''i'') aone, True)
                     else if event_name = ''fan_control_enabled'' then
                       (store_is_fan_control_enabled (g_variant_get value_var ''b'') aone, True)
                     else if event_name = ''temperature'' then
                       (store_temperature (g_variant_get value_var ''d'') aone, False)
                     else (aone, False))
                  in Some (aone', w @ [Update_view fan_changed False
                                         (argonone_update_view aone' fan_changed False)]))
             | _ \<Rightarrow> None)
          else Some (aone, w @ [Update_view False False (argonone_update_view aone False False)]))"

subsection \<open>Bus calls\<close>

text \<open>
  \<open>argonone_dbus_method_call_sync\<close>: parameters that are not a tuple are wrapped in a
  tuple of one; a failed call is logged with \<open>DEBUG\<close> and gives \<open>NULL\<close>.
\<close>

definition argonone_dbus_method_call_sync ::
  "daemon \<Rightarrow> world \<Rightarrow> string \<Rightarrow> gvariant option \<Rightarrow> gvariant option \<times> world"
where
  "argonone_dbus_method_call_sync d w method_name parameters =
     (let parameters' =
            (case parameters of
               None \<Rightarrow> None
             | Some p \<Rightarrow> if \<not> is_tuple p then Some (VTuple [p]) else Some p);
          w' = w @ [Dbus_call method_name parameters']
      in case d (length (dbus_calls w)) method_name parameters' of
           Retval retval \<Rightarrow> (Some retval, w')
         | Failed message \<Rightarrow>
             (None, w' @ [Debug (''DBG: Failed to call '' @ method_name @ '' method: '' @ message)]))"

text \<open>
  \<open>argonone_dbus_query_sync\<close>: the flag it returns, what \<open>g_variant_get\<close> wrote through
  \<open>value\<close> (\<open>None\<close> when it wrote nothing), and the trace. Every caller passes the
  address of a field, so the \<open>g_assert\<close> on \<open>value\<close> holds.
\<close>

definition argonone_dbus_query_sync ::
  "daemon \<Rightarrow> world \<Rightarrow> string \<Rightarrow> string \<Rightarrow> bool \<times> gvariant list option \<times> world"
where
  "argonone_dbus_query_sync d w method_name return_format_string =
     (case argonone_dbus_method_call_sync d w method_name None of
        (None, w') \<Rightarrow> (False, None, w')
      | (Some retval, w') \<Rightarrow> (True, g_variant_get retval return_format_string, w'))"

subsection \<open>The fan command\<close>

text \<open>\<open>_argonone_set_fan\<close> (an Isabelle name cannot start with an underscore).\<close>

definition argonone_set_fan :: "daemon \<Rightarrow> world \<Rightarrow> bool \<Rightarrow> gint32 \<Rightarrow> world" where
  "argonone_set_fan d w enabled speed =
     (let w1 = snd (argonone_dbus_method_call_sync d w ''SetFanControlEnabled'' (Some (VBool enabled)))
      in if 0 \<le> sint speed
         then snd (argonone_dbus_method_call_sync d w1 ''SetFanSpeed'' (Some (VInt32 speed)))
         else w1)"

subsection \<open>Settings and construction\<close>

text \<open>
  The settings of the panel are a map from names to integers;
  \<open>config_setting_lookup_int\<close> fails on a name that is not there.
\<close>

definition argonone_update_from_settings :: "(string \<rightharpoonup> int) \<Rightarrow> ArgonOnePlugin \<Rightarrow> ArgonOnePlugin" where
  "argonone_update_from_settings settings aone =
     (let aone1 = (case settings ''ShowLabel'' of
                     Some v \<Rightarrow> aone\<lparr>show_label := (v = 1)\<rparr>
                   | None \<Rightarrow> aone)
      in case settings ''IncludeTemperature'' of
           Some v \<Rightarrow> aone1\<lparr>include_temperature := (v = 1)\<rparr>
         | None \<Rightarrow> aone1)"

text \<open>\<open>g_new0\<close> fills the structure with zero bytes.\<close>

definition g_new0 :: ArgonOnePlugin where
  "g_new0 = \<lparr>show_label = False, include_temperature = False, fan_speed = 0,
             temperature = 0, is_fan_control_enabled = False\<rparr>"

text \<open>
  \<open>argonone_constructor\<close>: the values set after \<open>g_new0\<close>, the settings, the proxy,
  the three queries, the first refresh. The second argument is the error that
  \<open>g_dbus_proxy_new_for_bus_sync\<close> reports, if any; \<open>g_error\<close> logs its message and
  aborts the process. Building the widgets is left out; the trace starts empty.
\<close>

datatype construction = Aborted string | Constructed ArgonOnePlugin world

definition initial_values :: ArgonOnePlugin where
  "initial_values = g_new0\<lparr>show_label := True, include_temperature := False,
                           is_fan_control_enabled := True, fan_speed := - 1\<rparr>"

definition argonone_constructor :: "(string \<rightharpoonup> int) \<Rightarrow> string option \<Rightarrow> daemon \<Rightarrow> construction" where
  "argonone_constructor settings proxy_error d =
     (let aone1 = argonone_update_from_settings settings initial_values
      in case proxy_error of
           Some message \<Rightarrow> Aborted (''Failed to get dbus proxy: '' @ message)
         | None \<Rightarrow>
             (let (ok1, out1, w1) = argonone_dbus_query_sync d [] ''GetFanSpeed'' ''(i)'';
                  aone2 = store_fan_speed out1 aone1;
                  (ok2, out2, w2) = argonone_dbus_query_sync d w1 ''GetFanControlEnabled'' ''(b)'';
                  aone3 = store_is_fan_control_enabled out2 aone2;
                  (ok3, out3, w3) = argonone_dbus_query_sync d w2 ''GetTemperature'' ''(d)'';
                  aone4 = store_temperature out3 aone3
              in Constructed aone4 (w3 @ [Update_view True True (argonone_update_view aone4 True True)])))"

text \<open>The main loop hands the signals to the handler one after the other.\<close>

type_synonym signal = "string option \<times> string \<times> gvariant"

fun deliver_all :: "ArgonOnePlugin \<Rightarrow> world \<Rightarrow> signal list \<Rightarrow> (ArgonOnePlugin \<times> world) option" where
  "deliver_all aone w [] = Some (aone, w)"
| "deliver_all aone w ((sender_name, signal_name, parameters) # sigs) =
     (case argonone_dbus_signal aone w sender_name signal_name parameters of
        None \<Rightarrow> None
      | Some (aone', w') \<Rightarrow> deliver_all aone' w' sigs)"

definition refresh_count :: "(ArgonOnePlugin \<times> world) option \<Rightarrow> nat option" where
  "refresh_count r = map_option (\<lambda>(aone, w). length (view_calls w)) r"


section \<open>Properties\<close>

subsection \<open>Type strings and stored values\<close>

lemma type_string_nonempty: "type_string v \<noteq> []"
  by (cases v) simp_all

lemma concat_type_string_empty: "concat (map type_string vs) = [] \<Longrightarrow> vs = []"
  by (cases vs) (simp_all add: type_string_nonempty)

text \<open>The values of type \<open>(sv)\<close> are the pairs of a string and a boxed value.\<close>

lemma type_string_sv:
  assumes "type_string p = ''(sv)''"
  shows "\<exists>key v. p = VTuple [VString key, VVariant v]"
proof (cases p)
  case (VTuple vs)
  with assms have c: "concat (map type_string vs) = ''sv''" by simp
  then obtain a rest where vs: "vs = a # rest" by (cases vs) auto
  from c vs obtain key where a: "a = VString key" and c2: "concat (map type_string rest) = ''v''"
    by (cases a) auto
  then obtain b rest2 where rest: "rest = b # rest2" by (cases rest) auto
  from c2 rest obtain v where b: "b = VVariant v" and c3: "concat (map type_string rest2) = []"
    by (cases b) auto
  from c3 have "rest2 = []" by (rule concat_type_string_empty)
  with VTuple vs a rest b show ?thesis by simp
qed (use assms in simp_all)

lemma g_variant_get_sv:
  "g_variant_get (VTuple [VString key, VVariant v]) ''(sv)'' = Some [VString key, v]"
  by (simp add: g_variant_get_def)

lemma store_fan_speed_get:
  "store_fan_speed (g_variant_get v ''i'') aone =
     (case v of VInt32 n \<Rightarrow> aone\<lparr>fan_speed := n\<rparr> | _ \<Rightarrow> aone)"
  by (cases v) (simp_all add: store_fan_speed_def g_variant_get_def)

lemma store_is_fan_control_enabled_get:
  "store_is_fan_control_enabled (g_variant_get v ''b'') aone =
     (case v of VBool b \<Rightarrow> aone\<lparr>is_fan_control_enabled := b\<rparr> | _ \<Rightarrow> aone)"
  by (cases v) (simp_all add: store_is_fan_control_enabled_def g_variant_get_def)

lemma store_temperature_get:
  "store_temperature (g_variant_get v ''d'') aone =
     (case v of VDouble t \<Rightarrow> aone\<lparr>temperature := t\<rparr> | _ \<Rightarrow> aone)"
  by (cases v) (simp_all add: store_temperature_def g_variant_get_def)

text \<open>The handler on a \<open>NotifyValue\<close> signal of the contract's type, from a sender.\<close>

lemma signal_notify:
  "argonone_dbus_signal aone w (Some sender) ''NotifyValue'' (VTuple [VString key, VVariant v]) =
     (let (aone', fan_changed) =
            (if key = ''fan_speed'' then
               (store_fan_speed (g_variant_get v ''i'') aone, True)
             else if key = ''fan_control_enabled'' then
               (store_is_fan_control_enabled (g_variant_get v ''b'') aone, True)
             else if key = ''temperature'' then
               (store_temperature (g_variant_get v ''d'') aone, False)
             else (aone, False))
      in Some (aone', w @ [Update_view fan_changed False
                             (argonone_update_view aone' fan_changed False)]))"
  by (simp add: argonone_dbus_signal_def g_variant_get_sv)

lemmas signal_notify_stored =
  signal_notify store_fan_speed_get store_is_fan_control_enabled_get store_temperature_get

subsection \<open>Notifications and the model\<close>

text \<open>
  C1. A \<open>NotifyValue\<close> notification from a sender that carries one of the four keys of the
  contract changes the field of that key and no other field: \<open>temperature\<close> with a
  double sets \<open>temperature\<close>, \<open>fan_speed\<close> with an int32 sets \<open>fan_speed\<close>,
  \<open>fan_control_enabled\<close> with a boolean sets \<open>is_fan_control_enabled\<close>, and
  \<open>power_control_enabled\<close>, for which the model has no field, leaves the plugin data as
  it is. Whatever value comes with a key, the plugin data afterwards differs from the one
  before in that key's field at most.
\<close>

theorem notify_updates_exactly_the_keys_field:
  "map_option fst (argonone_dbus_signal aone w (Some sender) ''NotifyValue''
       (VTuple [VString ''temperature'', VVariant (VDouble t)])) = Some (aone\<lparr>temperature := t\<rparr>)
   \<and> map_option fst (argonone_dbus_signal aone w (Some sender) ''NotifyValue''
       (VTuple [VString ''fan_speed'', VVariant (VInt32 n)])) = Some (aone\<lparr>fan_speed := n\<rparr>)
   \<and> map_option fst (argonone_dbus_signal aone w (Some sender) ''NotifyValue''
       (VTuple [VString ''fan_control_enabled'', VVariant (VBool b)])) =
         Some (aone\<lparr>is_fan_control_enabled := b\<rparr>)
   \<and> map_option fst (argonone_dbus_signal aone w (Some sender) ''NotifyValue''
       (VTuple [VString ''power_control_enabled'', VVariant v])) = Some aone
   \<and> (\<exists>t'. map_option fst (argonone_dbus_signal aone w (Some sender) ''NotifyValue''
       (VTuple [VString ''temperature'', VVariant v])) = Some (aone\<lparr>temperature := t'\<rparr>))
   \<and> (\<exists>n'. map_option fst (argonone_dbus_signal aone w (Some sender) ''NotifyValue''
       (VTuple [VString ''fan_speed'', VVariant v])) = Some (aone\<lparr>fan_speed := n'\<rparr>))
   \<and> (\<exists>b'. map_option fst (argonone_dbus_signal aone w (Some sender) ''NotifyValue''
       (VTuple [VString ''fan_control_enabled'', VVariant v])) =
         Some (aone\<lparr>is_fan_control_enabled := b'\<rparr>))"
proof -
  have "\<exists>t'. (case v of VDouble d \<Rightarrow> aone\<lparr>temperature := d\<rparr> | _ \<Rightarrow> aone) = aone\<lparr>temperature := t'\<rparr>"
    by (cases v) (auto intro: exI [of _ "temperature aone"])
  moreover
  have "\<exists>n'. (case v of VInt32 n \<Rightarrow> aone\<lparr>fan_speed := n\<rparr> | _ \<Rightarrow> aone) = aone\<lparr>fan_speed := n'\<rparr>"
    by (cases v) (auto intro: exI [of _ "fan_speed aone"])
  moreover
  have "\<exists>b'. (case v of VBool b \<Rightarrow> aone\<lparr>is_fan_control_enabled := b\<rparr> | _ \<Rightarrow> aone) =
          aone\<lparr>is_fan_control_enabled := b'\<rparr>"
    by (cases v) (auto intro: exI [of _ "is_fan_control_enabled aone"])
  ultimately show ?thesis
    by (simp add: signal_notify_stored)
qed

theorem notify_updates_exactly_the_keys_field_witness:
  "map_option fst (argonone_dbus_signal initial_values [] (Some '':1.7'') ''NotifyValue''
       (VTuple [VString ''fan_speed'', VVariant (VInt32 42)])) =
     Some \<lparr>show_label = True, include_temperature = False, fan_speed = 42,
            temperature = 0, is_fan_control_enabled = True\<rparr>"
  using notify_updates_exactly_the_keys_field [of initial_values "[]" "'':1.7''" 0 42 True "VInt32 0"]
  by (simp add: initial_values_def g_new0_def)

text \<open>
  C4. A signal whose sender name is \<open>NULL\<close> does nothing, whatever its name and its
  parameters: the plugin data and the trace, and so the view, are as before.
\<close>

theorem null_sender_is_noop:
  "argonone_dbus_signal aone w None signal_name parameters = Some (aone, w)"
  by (simp add: argonone_dbus_signal_def)

theorem null_sender_is_noop_witness:
  "argonone_dbus_signal initial_values [] None ''NotifyValue''
     (VTuple [VString ''fan_speed'', VVariant (VInt32 42)]) = Some (initial_values, [])"
  using null_sender_is_noop [of initial_values "[]" "''NotifyValue''"
      "VTuple [VString ''fan_speed'', VVariant (VInt32 42)]"]
  by simp

text \<open>
  C7. A \<open>NotifyValue\<close> notification from a sender whose key is none of the four keys of
  the contract leaves \<open>fan_speed\<close>, \<open>is_fan_control_enabled\<close> and \<open>temperature\<close> as
  they are (and the rest of the plugin data with them).
\<close>

theorem unrecognized_key_keeps_state:
  assumes "key \<notin> {''temperature'', ''fan_speed'', ''fan_control_enabled'', ''power_control_enabled''}"
  shows "\<exists>aone' w'. argonone_dbus_signal aone w (Some sender) ''NotifyValue''
            (VTuple [VString key, VVariant v]) = Some (aone', w')
         \<and> fan_speed aone' = fan_speed aone
         \<and> is_fan_control_enabled aone' = is_fan_control_enabled aone
         \<and> temperature aone' = temperature aone
         \<and> aone' = aone"
  using assms by (simp add: signal_notify)

theorem unrecognized_key_keeps_state_witness:
  "''humidity'' \<notin> {''temperature'', ''fan_speed'', ''fan_control_enabled'', ''power_control_enabled''}
   \<and> map_option fst (argonone_dbus_signal initial_values [] (Some '':1.7'') ''NotifyValue''
         (VTuple [VString ''humidity'', VVariant (VInt32 55)])) = Some initial_values"
proof -
  have h: "''humidity'' \<notin> {''temperature'', ''fan_speed'', ''fan_control_enabled'', ''power_control_enabled''}"
    by simp
  show ?thesis
    using h unrecognized_key_keeps_state [OF h, of initial_values "[]" "'':1.7''" "VInt32 55"]
    by auto
qed

subsection \<open>Notifications and the view\<close>

text \<open>
  C5. A notification from a sender with the key \<open>fan_speed\<close> or \<open>fan_control_enabled\<close>
  calls \<open>argonone_update_view\<close> with \<open>fan_changed\<close> true; one with the key
  \<open>temperature\<close> calls it with \<open>fan_changed\<close> false. That call does not set the icon,
  and it writes the status text when the temperature is part of it.
\<close>

theorem notify_fan_changed_flag:
  "(\<exists>aone' es. argonone_dbus_signal aone w (Some sender) ''NotifyValue''
        (VTuple [VString ''fan_speed'', VVariant v]) = Some (aone', w @ [Update_view True False es]))
   \<and> (\<exists>aone' es. argonone_dbus_signal aone w (Some sender) ''NotifyValue''
        (VTuple [VString ''fan_control_enabled'', VVariant v]) =
          Some (aone', w @ [Update_view True False es]))
   \<and> (\<exists>aone' es. argonone_dbus_signal aone w (Some sender) ''NotifyValue''
        (VTuple [VString ''temperature'', VVariant v]) = Some (aone', w @ [Update_view False False es])
        \<and> es = (if include_temperature aone'
                 then [if show_label aone' then Set_label_text (status_of aone')
                       else Set_tooltip_status (status_of aone')]
                 else []))"
  by (simp add: signal_notify_stored argonone_update_view_def split: gvariant.split)

theorem notify_fan_changed_flag_witness:
  "argonone_dbus_signal (initial_values\<lparr>include_temperature := True\<rparr>) [] (Some '':1.7'')
      ''NotifyValue'' (VTuple [VString ''temperature'', VVariant (VDouble 7)]) =
     Some (initial_values\<lparr>include_temperature := True, temperature := 7\<rparr>,
           [Update_view False False [Set_label_text (Status None (Some 7))]])"
  using notify_fan_changed_flag [of "initial_values\<lparr>include_temperature := True\<rparr>" "[]" "'':1.7''"
      "VDouble 7"]
  by (simp add: signal_notify_stored argonone_update_view_def status_of_def
      initial_values_def g_new0_def)

text \<open>
  C10, as the claim states it: every signal from a sender calls \<open>argonone_update_view\<close>
  exactly once. It does not for a \<open>NotifyValue\<close> signal whose parameters are not of
  type \<open>(sv)\<close>, here the tuple of one int32: \<open>g_variant_get\<close> sets neither
  \<open>event_name\<close> nor \<open>value_var\<close>, the code compares and frees the unset \<open>event_name\<close>,
  and the handler has no defined result.
\<close>

theorem signal_refreshes_view_once_counterexample:
  "type_string (VTuple [VInt32 1]) \<noteq> ''(sv)''
   \<and> argonone_dbus_signal initial_values [] (Some '':1.7'') ''NotifyValue'' (VTuple [VInt32 1]) = None"
  by (simp add: argonone_dbus_signal_def g_variant_get_def)

text \<open>
  C10, amended. A signal from a sender calls \<open>argonone_update_view\<close> exactly once, with
  \<open>config_updated\<close> false, when its name is not \<open>NotifyValue\<close>, whatever its
  parameters, and when it is a \<open>NotifyValue\<close> signal with parameters of the contract's
  type \<open>(sv)\<close>, whatever its key. A signal without a sender calls it not at all.
\<close>

theorem signal_refreshes_view_once:
  assumes "signal_name = ''NotifyValue'' \<longrightarrow> type_string parameters = ''(sv)''"
  shows "(\<exists>aone' fan_changed es.
            argonone_dbus_signal aone w (Some sender) signal_name parameters =
              Some (aone', w @ [Update_view fan_changed False es]))
         \<and> argonone_dbus_signal aone w None signal_name parameters = Some (aone, w)"
proof -
  have null: "argonone_dbus_signal aone w None signal_name parameters = Some (aone, w)"
    by (simp add: argonone_dbus_signal_def)
  have "\<exists>aone' fan_changed es.
            argonone_dbus_signal aone w (Some sender) signal_name parameters =
              Some (aone', w @ [Update_view fan_changed False es])"
  proof (cases "signal_name = ''NotifyValue''")
    case True
    with assms obtain key v where "parameters = VTuple [VString key, VVariant v]"
      using type_string_sv by blast
    with True show ?thesis
      by (auto simp add: signal_notify)
  next
    case False
    then show ?thesis by (auto simp add: argonone_dbus_signal_def)
  qed
  with null show ?thesis by simp
qed

theorem signal_refreshes_view_once_witness:
  "type_string (VTuple [VString ''humidity'', VVariant (VInt32 55)]) = ''(sv)''
   \<and> argonone_dbus_signal initial_values [] (Some '':1.7'') ''NotifyValue''
        (VTuple [VString ''humidity'', VVariant (VInt32 55)]) =
      Some (initial_values, [Update_view False False []])
   \<and> argonone_dbus_signal initial_values [] (Some '':1.7'') ''PropertiesChanged'' (VTuple []) =
      Some (initial_values, [Update_view False False []])"
proof -
  have t: "type_string (VTuple [VString ''humidity'', VVariant (VInt32 55)]) = ''(sv)''"
    by simp
  have a: "argonone_dbus_signal initial_values [] (Some '':1.7'') ''NotifyValue''
        (VTuple [VString ''humidity'', VVariant (VInt32 55)]) =
      Some (initial_values, [Update_view False False []])"
    by (simp add: signal_notify argonone_update_view_def initial_values_def g_new0_def)
  have b: "argonone_dbus_signal initial_values [] (Some '':1.7'') ''PropertiesChanged'' (VTuple []) =
      Some (initial_values, [Update_view False False []])"
    by (simp add: argonone_dbus_signal_def argonone_update_view_def initial_values_def g_new0_def)
  show ?thesis
    using t a b
      signal_refreshes_view_once [of "''NotifyValue''"
        "VTuple [VString ''humidity'', VVariant (VInt32 55)]" initial_values "[]" "'':1.7''"]
      signal_refreshes_view_once [of "''PropertiesChanged''" "VTuple []" initial_values "[]" "'':1.7''"]
    by simp
qed

subsection \<open>Delivering a notification twice\<close>

lemma notify_twice:
  assumes "argonone_dbus_signal aone w (Some sender) ''NotifyValue''
             (VTuple [VString key, VVariant v]) = Some (aone1, w1)"
  shows "\<exists>fan_changed es. w1 = w @ [Update_view fan_changed False es]
           \<and> argonone_dbus_signal aone1 w1 (Some sender) ''NotifyValue''
                 (VTuple [VString key, VVariant v]) =
               Some (aone1, w1 @ [Update_view fan_changed False es])"
proof -
  consider (speed) "key = ''fan_speed''" | (enabled) "key = ''fan_control_enabled''"
    | (temp) "key = ''temperature''"
    | (other) "key \<noteq> ''fan_speed''" "key \<noteq> ''fan_control_enabled''" "key \<noteq> ''temperature''"
    by blast
  then show ?thesis
  proof cases
    case speed
    define a' where "a' = (case v of VInt32 n \<Rightarrow> aone\<lparr>fan_speed := n\<rparr> | _ \<Rightarrow> aone)"
    have "argonone_dbus_signal aone w (Some sender) ''NotifyValue''
            (VTuple [VString ''fan_speed'', VVariant v]) =
          Some (a', w @ [Update_view True False (argonone_update_view a' True False)])"
      by (simp add: signal_notify_stored a'_def)
    with assms speed have 1: "aone1 = a'"
      and 2: "w1 = w @ [Update_view True False (argonone_update_view a' True False)]"
      by auto
    have idem: "(case v of VInt32 n \<Rightarrow> a'\<lparr>fan_speed := n\<rparr> | _ \<Rightarrow> a') = a'"
      by (cases v) (simp_all add: a'_def)
    show ?thesis unfolding 1 2 speed
      by (auto simp add: signal_notify_stored idem)
  next
    case enabled
    define a' where "a' = (case v of VBool b \<Rightarrow> aone\<lparr>is_fan_control_enabled := b\<rparr> | _ \<Rightarrow> aone)"
    have "argonone_dbus_signal aone w (Some sender) ''NotifyValue''
            (VTuple [VString ''fan_control_enabled'', VVariant v]) =
          Some (a', w @ [Update_view True False (argonone_update_view a' True False)])"
      by (simp add: signal_notify_stored a'_def)
    with assms enabled have 1: "aone1 = a'"
      and 2: "w1 = w @ [Update_view True False (argonone_update_view a' True False)]"
      by auto
    have idem: "(case v of VBool b \<Rightarrow> a'\<lparr>is_fan_control_enabled := b\<rparr> | _ \<Rightarrow> a') = a'"
      by (cases v) (simp_all add: a'_def)
    show ?thesis unfolding 1 2 enabled
      by (auto simp add: signal_notify_stored idem)
  next
    case temp
    define a' where "a' = (case v of VDouble d \<Rightarrow> aone\<lparr>temperature := d\<rparr> | _ \<Rightarrow> aone)"
    have "argonone_dbus_signal aone w (Some sender) ''NotifyValue''
            (VTuple [VString ''temperature'', VVariant v]) =
          Some (a', w @ [Update_view False False (argonone_update_view a' False False)])"
      by (simp add: signal_notify_stored a'_def)
    with assms temp have 1: "aone1 = a'"
      and 2: "w1 = w @ [Update_view False False (argonone_update_view a' False False)]"
      by auto
    have idem: "(case v of VDouble d \<Rightarrow> a'\<lparr>temperature := d\<rparr> | _ \<Rightarrow> a') = a'"
      by (cases v) (simp_all add: a'_def)
    show ?thesis unfolding 1 2 temp
      by (auto simp add: signal_notify_stored idem)
  next
    case other
    with assms show ?thesis by (auto simp add: signal_notify)
  qed
qed

text \<open>
  C2, as the claim states it: after \<open>fan_speed = 42\<close> has been delivered twice, the number
  of calls of \<open>argonone_update_view\<close> is the number after one delivery. It is not: the
  handler has no test for a changed value, and each delivery calls the view.
\<close>

theorem duplicate_notification_refresh_count_counterexample:
  "refresh_count (deliver_all initial_values []
      [(Some '':1.7'', ''NotifyValue'', VTuple [VString ''fan_speed'', VVariant (VInt32 42)]),
       (Some '':1.7'', ''NotifyValue'', VTuple [VString ''fan_speed'', VVariant (VInt32 42)])]) = Some 2
   \<and> refresh_count (deliver_all initial_values []
      [(Some '':1.7'', ''NotifyValue'', VTuple [VString ''fan_speed'', VVariant (VInt32 42)])]) = Some 1
   \<and> refresh_count (deliver_all initial_values []
      [(Some '':1.7'', ''NotifyValue'', VTuple [VString ''fan_speed'', VVariant (VInt32 42)]),
       (Some '':1.7'', ''NotifyValue'', VTuple [VString ''fan_speed'', VVariant (VInt32 42)])]) \<noteq>
     refresh_count (deliver_all initial_values []
      [(Some '':1.7'', ''NotifyValue'', VTuple [VString ''fan_speed'', VVariant (VInt32 42)])])"
  by (simp add: refresh_count_def view_calls_def signal_notify_stored)

text \<open>
  C2, amended. When a signal from a sender has been handled, handling the same signal
  again leaves the plugin data as the first delivery left it, and calls
  \<open>argonone_update_view\<close> once more, with the flags and the effects on the widgets of the
  first call: every delivery refreshes the view once, whether the value changed or not.
\<close>

theorem duplicate_notification_same_state_one_refresh_each:
  assumes "argonone_dbus_signal aone w (Some sender) signal_name parameters = Some (aone1, w1)"
  shows "\<exists>fan_changed es. w1 = w @ [Update_view fan_changed False es]
           \<and> argonone_dbus_signal aone1 w1 (Some sender) signal_name parameters =
               Some (aone1, w1 @ [Update_view fan_changed False es])"
proof (cases "signal_name = ''NotifyValue''")
  case True
  have "type_string parameters = ''(sv)''"
  proof (rule ccontr)
    assume "type_string parameters \<noteq> ''(sv)''"
    then have "argonone_dbus_signal aone w (Some sender) ''NotifyValue'' parameters = None"
      by (simp add: argonone_dbus_signal_def g_variant_get_def)
    with assms True show False by simp
  qed
  then obtain key v where "parameters = VTuple [VString key, VVariant v]"
    using type_string_sv by blast
  with True assms show ?thesis
    by (simp add: notify_twice [of aone w sender key v aone1 w1])
next
  case False
  with assms show ?thesis by (auto simp add: argonone_dbus_signal_def)
qed

theorem duplicate_notification_same_state_one_refresh_each_witness:
  "argonone_dbus_signal initial_values [] (Some '':1.7'') ''NotifyValue''
       (VTuple [VString ''fan_speed'', VVariant (VInt32 42)]) =
     Some (initial_values\<lparr>fan_speed := 42\<rparr>,
           [Update_view True False (argonone_update_view (initial_values\<lparr>fan_speed := 42\<rparr>) True False)])
   \<and> argonone_dbus_signal (initial_values\<lparr>fan_speed := 42\<rparr>)
       [Update_view True False (argonone_update_view (initial_values\<lparr>fan_speed := 42\<rparr>) True False)]
       (Some '':1.7'') ''NotifyValue'' (VTuple [VString ''fan_speed'', VVariant (VInt32 42)]) =
     Some (initial_values\<lparr>fan_speed := 42\<rparr>,
           [Update_view True False (argonone_update_view (initial_values\<lparr>fan_speed := 42\<rparr>) True False),
            Update_view True False (argonone_update_view (initial_values\<lparr>fan_speed := 42\<rparr>) True False)])"
proof -
  have h: "argonone_dbus_signal initial_values [] (Some '':1.7'') ''NotifyValue''
       (VTuple [VString ''fan_speed'', VVariant (VInt32 42)]) =
     Some (initial_values\<lparr>fan_speed := 42\<rparr>,
           [Update_view True False (argonone_update_view (initial_values\<lparr>fan_speed := 42\<rparr>) True False)])"
    by (simp add: signal_notify_stored)
  show ?thesis
    using h duplicate_notification_same_state_one_refresh_each [OF h]
    by auto
qed

subsection \<open>The fan command\<close>

lemma method_call_trace:
  "snd (argonone_dbus_method_call_sync d w m (Some v)) =
     w @ Dbus_call m (Some (if is_tuple v then v else VTuple [v])) #
       (case d (length (dbus_calls w)) m (Some (if is_tuple v then v else VTuple [v])) of
          Retval r \<Rightarrow> []
        | Failed e \<Rightarrow> [Debug (''DBG: Failed to call '' @ m @ '' method: '' @ e)])"
  by (simp add: argonone_dbus_method_call_sync_def Let_def split: dbus_reply.split)

lemma method_call_dbus_calls:
  "dbus_calls (snd (argonone_dbus_method_call_sync d w m (Some v))) =
     dbus_calls w @ [Dbus_call m (Some (if is_tuple v then v else VTuple [v]))]"
  by (simp add: method_call_trace dbus_calls_def split: dbus_reply.split)

lemma method_call_debug_log:
  "length (debug_log (snd (argonone_dbus_method_call_sync d w m (Some v)))) =
     length (debug_log w) +
     (if failed (d (length (dbus_calls w)) m (Some (if is_tuple v then v else VTuple [v]))) then 1 else 0)"
  by (simp add: method_call_trace debug_log_def split: dbus_reply.split)

text \<open>
  C3. The command calls \<open>SetFanControlEnabled\<close> with the flag first, always, and
  \<open>SetFanSpeed\<close> with the speed after it when the speed is not negative, and makes no
  other bus call: one call for \<open>enabled = FALSE\<close> with the speed \<open>-1\<close>, and the two calls
  \<open>enabled = TRUE\<close>, then \<open>speed = 75\<close>, for \<open>TRUE\<close> and \<open>75\<close>.
\<close>

theorem set_fan_calls_in_order:
  "dbus_calls (argonone_set_fan d w enabled speed) =
     dbus_calls w @ Dbus_call ''SetFanControlEnabled'' (Some (VTuple [VBool enabled])) #
       (if 0 \<le> sint speed then [Dbus_call ''SetFanSpeed'' (Some (VTuple [VInt32 speed]))] else [])
   \<and> dbus_calls (argonone_set_fan d w False (- 1)) =
       dbus_calls w @ [Dbus_call ''SetFanControlEnabled'' (Some (VTuple [VBool False]))]
   \<and> dbus_calls (argonone_set_fan d w True 75) =
       dbus_calls w @ [Dbus_call ''SetFanControlEnabled'' (Some (VTuple [VBool True])),
                       Dbus_call ''SetFanSpeed'' (Some (VTuple [VInt32 75]))]"
  by (simp add: argonone_set_fan_def Let_def method_call_dbus_calls)

theorem set_fan_calls_in_order_witness:
  "dbus_calls (argonone_set_fan (\<lambda>k m p. Retval (VTuple [])) [] False 100) =
     [Dbus_call ''SetFanControlEnabled'' (Some (VTuple [VBool False])),
      Dbus_call ''SetFanSpeed'' (Some (VTuple [VInt32 100]))]"
  using set_fan_calls_in_order [of "\<lambda>k m p. Retval (VTuple [])" "[]" False 100]
  by (simp add: dbus_calls_def)

text \<open>
  C9. The command neither checks nor clamps the speed: every speed that is not negative,
  also above 100, goes out in a \<open>SetFanSpeed\<close> call as it is, and for every negative
  speed, not only \<open>-1\<close>, no \<open>SetFanSpeed\<close> call is made.
\<close>

theorem set_fan_speed_not_validated:
  "(0 \<le> sint speed \<longrightarrow>
      dbus_calls (argonone_set_fan d w enabled speed) =
        dbus_calls w @ [Dbus_call ''SetFanControlEnabled'' (Some (VTuple [VBool enabled])),
                        Dbus_call ''SetFanSpeed'' (Some (VTuple [VInt32 speed]))])
   \<and> (sint speed < 0 \<longrightarrow>
      dbus_calls (argonone_set_fan d w enabled speed) =
        dbus_calls w @ [Dbus_call ''SetFanControlEnabled'' (Some (VTuple [VBool enabled]))])"
  by (simp add: argonone_set_fan_def Let_def method_call_dbus_calls)

theorem set_fan_speed_not_validated_witness:
  "0 \<le> sint (250 :: gint32) \<and> sint (- 7 :: gint32) < 0
   \<and> dbus_calls (argonone_set_fan (\<lambda>k m p. Retval (VTuple [])) [] False 250) =
        [Dbus_call ''SetFanControlEnabled'' (Some (VTuple [VBool False])),
         Dbus_call ''SetFanSpeed'' (Some (VTuple [VInt32 250]))]
   \<and> dbus_calls (argonone_set_fan (\<lambda>k m p. Failed ''down'') [] True (- 7)) =
        [Dbus_call ''SetFanControlEnabled'' (Some (VTuple [VBool True]))]"
  using set_fan_speed_not_validated [of 250 "\<lambda>k m p. Retval (VTuple [])" "[]" False]
        set_fan_speed_not_validated [of "- 7" "\<lambda>k m p. Failed ''down''" "[]" True]
  by (simp add: dbus_calls_def)

subsection \<open>Startup\<close>

lemma query_sync_unfold:
  "argonone_dbus_query_sync d w m fmt =
     (case d (length (dbus_calls w)) m None of
        Retval r \<Rightarrow> (True, g_variant_get r fmt, w @ [Dbus_call m None])
      | Failed e \<Rightarrow>
          (False, None,
           w @ [Dbus_call m None, Debug (''DBG: Failed to call '' @ m @ '' method: '' @ e)]))"
  by (simp add: argonone_dbus_query_sync_def argonone_dbus_method_call_sync_def Let_def
      split: dbus_reply.split)

lemma query_sync_dbus_calls:
  "dbus_calls (snd (snd (argonone_dbus_query_sync d w m fmt))) = dbus_calls w @ [Dbus_call m None]"
  by (simp add: query_sync_unfold dbus_calls_def split: dbus_reply.split)

lemma query_sync_debug_log:
  "length (debug_log (snd (snd (argonone_dbus_query_sync d w m fmt)))) =
     length (debug_log w) + (if failed (d (length (dbus_calls w)) m None) then 1 else 0)"
  by (simp add: query_sync_unfold debug_log_def split: dbus_reply.split)

lemma query_sync_failed:
  "failed (d (length (dbus_calls w)) m None) \<Longrightarrow> fst (snd (argonone_dbus_query_sync d w m fmt)) = None"
  by (cases "d (length (dbus_calls w)) m None") (simp_all add: query_sync_unfold)

lemma store_None [simp]:
  "store_fan_speed None aone = aone"
  "store_is_fan_control_enabled None aone = aone"
  "store_temperature None aone = aone"
  by (simp_all add: store_fan_speed_def store_is_fan_control_enabled_def store_temperature_def)

lemma store_fan_speed_frame [simp]:
  "is_fan_control_enabled (store_fan_speed out aone) = is_fan_control_enabled aone"
  "temperature (store_fan_speed out aone) = temperature aone"
  by (simp_all add: store_fan_speed_def split: option.split list.split gvariant.split)

lemma store_is_fan_control_enabled_frame [simp]:
  "fan_speed (store_is_fan_control_enabled out aone) = fan_speed aone"
  "temperature (store_is_fan_control_enabled out aone) = temperature aone"
  by (simp_all add: store_is_fan_control_enabled_def split: option.split list.split gvariant.split)

lemma store_temperature_frame [simp]:
  "fan_speed (store_temperature out aone) = fan_speed aone"
  "is_fan_control_enabled (store_temperature out aone) = is_fan_control_enabled aone"
  by (simp_all add: store_temperature_def split: option.split list.split gvariant.split)

lemma update_from_settings_frame [simp]:
  "fan_speed (argonone_update_from_settings settings aone) = fan_speed aone"
  "is_fan_control_enabled (argonone_update_from_settings settings aone) = is_fan_control_enabled aone"
  "temperature (argonone_update_from_settings settings aone) = temperature aone"
  by (simp_all add: argonone_update_from_settings_def Let_def split: option.split)

lemma initial_values_fields [simp]:
  "fan_speed initial_values = - 1"
  "is_fan_control_enabled initial_values"
  "temperature initial_values = 0"
  by (simp_all add: initial_values_def g_new0_def)

text \<open>The constructor with a proxy, in terms of the three queries.\<close>

lemma constructor_unfold:
  "argonone_constructor settings None d =
     (let q1 = argonone_dbus_query_sync d [] ''GetFanSpeed'' ''(i)'';
          q2 = argonone_dbus_query_sync d (snd (snd q1)) ''GetFanControlEnabled'' ''(b)'';
          q3 = argonone_dbus_query_sync d (snd (snd q2)) ''GetTemperature'' ''(d)'';
          aone4 = store_temperature (fst (snd q3))
                    (store_is_fan_control_enabled (fst (snd q2))
                      (store_fan_speed (fst (snd q1))
                        (argonone_update_from_settings settings initial_values)))
      in Constructed aone4
           (snd (snd q3) @ [Update_view True True (argonone_update_view aone4 True True)]))"
  by (simp add: argonone_constructor_def Let_def split_beta)

text \<open>
  C6. With a proxy, construction completes whatever the three queries do, and each
  query is made once, in the order \<open>GetFanSpeed\<close>, \<open>GetFanControlEnabled\<close>,
  \<open>GetTemperature\<close>. When the first fails, \<open>fan_speed\<close> is still \<open>-1\<close>; when the second
  fails, \<open>is_fan_control_enabled\<close> is still true; when the third fails, \<open>temperature\<close> is
  still the zero that \<open>g_new0\<close> put there.
\<close>

theorem failed_startup_query_keeps_default:
  "\<exists>aone w. argonone_constructor settings None d = Constructed aone w
     \<and> dbus_calls w = [Dbus_call ''GetFanSpeed'' None, Dbus_call ''GetFanControlEnabled'' None,
                       Dbus_call ''GetTemperature'' None]
     \<and> (failed (d 0 ''GetFanSpeed'' None) \<longrightarrow> fan_speed aone = - 1)
     \<and> (failed (d 1 ''GetFanControlEnabled'' None) \<longrightarrow> is_fan_control_enabled aone)
     \<and> (failed (d 2 ''GetTemperature'' None) \<longrightarrow> temperature aone = 0)"
proof -
  define q1 where "q1 = argonone_dbus_query_sync d [] ''GetFanSpeed'' ''(i)''"
  define q2 where "q2 = argonone_dbus_query_sync d (snd (snd q1)) ''GetFanControlEnabled'' ''(b)''"
  define q3 where "q3 = argonone_dbus_query_sync d (snd (snd q2)) ''GetTemperature'' ''(d)''"
  define aone where "aone = store_temperature (fst (snd q3))
                    (store_is_fan_control_enabled (fst (snd q2))
                      (store_fan_speed (fst (snd q1))
                        (argonone_update_from_settings settings initial_values)))"
  define w where "w = snd (snd q3) @ [Update_view True True (argonone_update_view aone True True)]"
  have c1: "dbus_calls (snd (snd q1)) = [Dbus_call ''GetFanSpeed'' None]"
    by (simp add: q1_def query_sync_dbus_calls) (simp add: dbus_calls_def)
  have c2: "dbus_calls (snd (snd q2)) =
      [Dbus_call ''GetFanSpeed'' None, Dbus_call ''GetFanControlEnabled'' None]"
    by (simp add: q2_def query_sync_dbus_calls c1)
  have c3: "dbus_calls (snd (snd q3)) =
      [Dbus_call ''GetFanSpeed'' None, Dbus_call ''GetFanControlEnabled'' None,
       Dbus_call ''GetTemperature'' None]"
    by (simp add: q3_def query_sync_dbus_calls c2)
  have built: "argonone_constructor settings None d = Constructed aone w"
    by (simp add: constructor_unfold Let_def q1_def q2_def q3_def aone_def w_def)
  have calls: "dbus_calls w = [Dbus_call ''GetFanSpeed'' None, Dbus_call ''GetFanControlEnabled'' None,
                       Dbus_call ''GetTemperature'' None]"
    using c3 by (simp add: w_def dbus_calls_def)
  have speed: "fan_speed aone = - 1" if "failed (d 0 ''GetFanSpeed'' None)"
  proof -
    from that have "fst (snd q1) = None"
      unfolding q1_def by (intro query_sync_failed) (simp add: dbus_calls_def)
    then show ?thesis by (simp add: aone_def)
  qed
  have enabled: "is_fan_control_enabled aone" if "failed (d 1 ''GetFanControlEnabled'' None)"
  proof -
    from that have "fst (snd q2) = None"
      unfolding q2_def by (intro query_sync_failed) (simp add: c1)
    then show ?thesis by (simp add: aone_def)
  qed
  have temp: "temperature aone = 0" if "failed (d 2 ''GetTemperature'' None)"
  proof -
    from that have "fst (snd q3) = None"
      unfolding q3_def by (intro query_sync_failed) (simp add: c2 numeral_2_eq_2)
    then show ?thesis by (simp add: aone_def)
  qed
  from built calls speed enabled temp show ?thesis by blast
qed

theorem failed_startup_query_keeps_default_witness:
  "failed ((\<lambda>k m p. if m = ''GetFanControlEnabled'' then Retval (VTuple [VBool False])
                     else Failed ''no reply'') 0 ''GetFanSpeed'' None)
   \<and> failed ((\<lambda>k m p. if m = ''GetFanControlEnabled'' then Retval (VTuple [VBool False])
                       else Failed ''no reply'') 2 ''GetTemperature'' None)
   \<and> argonone_constructor Map.empty None
        (\<lambda>k m p. if m = ''GetFanControlEnabled'' then Retval (VTuple [VBool False])
                  else Failed ''no reply'') =
      Constructed
        \<lparr>show_label = True, include_temperature = False, fan_speed = - 1, temperature = 0,
           is_fan_control_enabled = False\<rparr>
        [Dbus_call ''GetFanSpeed'' None,
         Debug ''DBG: Failed to call GetFanSpeed method: no reply'',
         Dbus_call ''GetFanControlEnabled'' None,
         Dbus_call ''GetTemperature'' None,
         Debug ''DBG: Failed to call GetTemperature method: no reply'',
         Update_view True True
           [Set_taskbar_icon ''argonone-fan-paused'', Set_visible True,
            Set_label_text (Status None None), Set_tooltip_text ''ArgonOne fan'']]"
proof -
  have c: "argonone_constructor Map.empty None
        (\<lambda>k m p. if m = ''GetFanControlEnabled'' then Retval (VTuple [VBool False])
                  else Failed ''no reply'') =
      Constructed
        \<lparr>show_label = True, include_temperature = False, fan_speed = - 1, temperature = 0,
           is_fan_control_enabled = False\<rparr>
        [Dbus_call ''GetFanSpeed'' None,
         Debug ''DBG: Failed to call GetFanSpeed method: no reply'',
         Dbus_call ''GetFanControlEnabled'' None,
         Dbus_call ''GetTemperature'' None,
         Debug ''DBG: Failed to call GetTemperature method: no reply'',
         Update_view True True
           [Set_taskbar_icon ''argonone-fan-paused'', Set_visible True,
            Set_label_text (Status None None), Set_tooltip_text ''ArgonOne fan'']]"
    by (simp add: constructor_unfold query_sync_unfold Let_def dbus_calls_def g_variant_get_def
        store_is_fan_control_enabled_def argonone_update_from_settings_def initial_values_def
        g_new0_def argonone_update_view_def icon_name_def status_of_def)
  show ?thesis
    using c failed_startup_query_keeps_default [of Map.empty
        "\<lambda>k m p. if m = ''GetFanControlEnabled'' then Retval (VTuple [VBool False])
                  else Failed ''no reply''"]
    by simp
qed

subsection \<open>Which failures abort\<close>

lemma set_fan_trace:
  "\<exists>es. argonone_set_fan d w enabled speed = w @ es \<and> list_all (\<lambda>e. is_dbus_call e \<or> is_debug e) es"
  by (simp add: argonone_set_fan_def Let_def method_call_trace split: dbus_reply.split)

lemma set_fan_debug_log:
  "length (debug_log (argonone_set_fan d w enabled speed)) =
     length (debug_log w) +
     length (filter failed
       (d (length (dbus_calls w)) ''SetFanControlEnabled'' (Some (VTuple [VBool enabled])) #
        (if 0 \<le> sint speed
         then [d (Suc (length (dbus_calls w))) ''SetFanSpeed'' (Some (VTuple [VInt32 speed]))]
         else [])))"
  by (simp add: argonone_set_fan_def Let_def method_call_debug_log method_call_dbus_calls)

text \<open>
  C8. Construction aborts when the proxy cannot be made, and only then: with a proxy
  it completes under every daemon, and each of the three queries that fails leaves one
  debug message and nothing else. The fan command returns under every daemon; what it
  adds to the trace are its bus calls and one debug message for each call that failed.
\<close>

theorem only_connection_failure_aborts:
  "argonone_constructor settings (Some message) d = Aborted (''Failed to get dbus proxy: '' @ message)
   \<and> (\<exists>aone w. argonone_constructor settings None d = Constructed aone w
         \<and> length (debug_log w) =
             length (filter failed [d 0 ''GetFanSpeed'' None, d 1 ''GetFanControlEnabled'' None,
                                    d 2 ''GetTemperature'' None]))
   \<and> (\<exists>es. argonone_set_fan d w0 enabled speed = w0 @ es
         \<and> list_all (\<lambda>e. is_dbus_call e \<or> is_debug e) es
         \<and> length (debug_log es) =
             length (filter failed
               (d (length (dbus_calls w0)) ''SetFanControlEnabled'' (Some (VTuple [VBool enabled])) #
                (if 0 \<le> sint speed
                 then [d (Suc (length (dbus_calls w0))) ''SetFanSpeed'' (Some (VTuple [VInt32 speed]))]
                 else []))))"
proof -
  have aborted: "argonone_constructor settings (Some message) d =
      Aborted (''Failed to get dbus proxy: '' @ message)"
    by (simp add: argonone_constructor_def Let_def)
  define q1 where "q1 = argonone_dbus_query_sync d [] ''GetFanSpeed'' ''(i)''"
  define q2 where "q2 = argonone_dbus_query_sync d (snd (snd q1)) ''GetFanControlEnabled'' ''(b)''"
  define q3 where "q3 = argonone_dbus_query_sync d (snd (snd q2)) ''GetTemperature'' ''(d)''"
  have c1: "length (dbus_calls (snd (snd q1))) = 1"
    by (simp add: q1_def query_sync_dbus_calls) (simp add: dbus_calls_def)
  have c2: "length (dbus_calls (snd (snd q2))) = 2"
    by (simp add: q2_def query_sync_dbus_calls c1)
  have l1: "length (debug_log (snd (snd q1))) = (if failed (d 0 ''GetFanSpeed'' None) then 1 else 0)"
    unfolding q1_def query_sync_debug_log by (simp add: debug_log_def dbus_calls_def)
  have l2: "length (debug_log (snd (snd q2))) =
      length (debug_log (snd (snd q1))) + (if failed (d 1 ''GetFanControlEnabled'' None) then 1 else 0)"
    unfolding q2_def query_sync_debug_log by (simp add: c1)
  have l3: "length (debug_log (snd (snd q3))) =
      length (debug_log (snd (snd q2))) + (if failed (d 2 ''GetTemperature'' None) then 1 else 0)"
    unfolding q3_def query_sync_debug_log by (simp add: c2)
  have built: "\<exists>aone w. argonone_constructor settings None d = Constructed aone w
         \<and> length (debug_log w) =
             length (filter failed [d 0 ''GetFanSpeed'' None, d 1 ''GetFanControlEnabled'' None,
                                    d 2 ''GetTemperature'' None])"
  proof -
    have "\<exists>aone. argonone_constructor settings None d =
        Constructed aone (snd (snd q3) @ [Update_view True True (argonone_update_view aone True True)])"
      by (simp add: constructor_unfold Let_def q1_def q2_def q3_def)
    moreover have "length (debug_log (snd (snd q3) @ [Update_view True True es])) =
        length (filter failed [d 0 ''GetFanSpeed'' None, d 1 ''GetFanControlEnabled'' None,
                               d 2 ''GetTemperature'' None])" for es
      using l1 l2 l3 by (simp add: debug_log_def)
    ultimately show ?thesis by blast
  qed
  obtain es where es: "argonone_set_fan d w0 enabled speed = w0 @ es"
    and only: "list_all (\<lambda>e. is_dbus_call e \<or> is_debug e) es"
    using set_fan_trace by blast
  have "length (debug_log (w0 @ es)) = length (debug_log w0) + length (debug_log es)"
    by (simp add: debug_log_def)
  with es set_fan_debug_log [of d w0 enabled speed]
  have logged: "length (debug_log es) =
             length (filter failed
               (d (length (dbus_calls w0)) ''SetFanControlEnabled'' (Some (VTuple [VBool enabled])) #
                (if 0 \<le> sint speed
                 then [d (Suc (length (dbus_calls w0))) ''SetFanSpeed'' (Some (VTuple [VInt32 speed]))]
                 else [])))"
    by simp
  from es only logged have "\<exists>es. argonone_set_fan d w0 enabled speed = w0 @ es
         \<and> list_all (\<lambda>e. is_dbus_call e \<or> is_debug e) es
         \<and> length (debug_log es) =
             length (filter failed
               (d (length (dbus_calls w0)) ''SetFanControlEnabled'' (Some (VTuple [VBool enabled])) #
                (if 0 \<le> sint speed
                 then [d (Suc (length (dbus_calls w0))) ''SetFanSpeed'' (Some (VTuple [VInt32 speed]))]
                 else [])))"
    by blast
  with aborted built show ?thesis by blast
qed

theorem only_connection_failure_aborts_witness:
  "argonone_constructor Map.empty (Some ''no such service'') (\<lambda>k m p. Failed ''no reply'') =
     Aborted ''Failed to get dbus proxy: no such service''
   \<and> argonone_constructor Map.empty None (\<lambda>k m p. Failed ''no reply'') =
     Constructed initial_values
       [Dbus_call ''GetFanSpeed'' None,
        Debug ''DBG: Failed to call GetFanSpeed method: no reply'',
        Dbus_call ''GetFanControlEnabled'' None,
        Debug ''DBG: Failed to call GetFanControlEnabled method: no reply'',
        Dbus_call ''GetTemperature'' None,
        Debug ''DBG: Failed to call GetTemperature method: no reply'',
        Update_view True True
          [Set_taskbar_icon ''argonone-fan-medium'', Set_visible True,
           Set_label_text (Status None None), Set_tooltip_text ''ArgonOne fan'']]
   \<and> argonone_set_fan (\<lambda>k m p. Failed ''no reply'') [] False 0 =
       [Dbus_call ''SetFanControlEnabled'' (Some (VTuple [VBool False])),
        Debug ''DBG: Failed to call SetFanControlEnabled method: no reply'',
        Dbus_call ''SetFanSpeed'' (Some (VTuple [VInt32 0])),
        Debug ''DBG: Failed to call SetFanSpeed method: no reply'']"
proof -
  have a: "argonone_constructor Map.empty None (\<lambda>k m p. Failed ''no reply'') =
     Constructed initial_values
       [Dbus_call ''GetFanSpeed'' None,
        Debug ''DBG: Failed to call GetFanSpeed method: no reply'',
        Dbus_call ''GetFanControlEnabled'' None,
        Debug ''DBG: Failed to call GetFanControlEnabled method: no reply'',
        Dbus_call ''GetTemperature'' None,
        Debug ''DBG: Failed to call GetTemperature method: no reply'',
        Update_view True True
          [Set_taskbar_icon ''argonone-fan-medium'', Set_visible True,
           Set_label_text (Status None None), Set_tooltip_text ''ArgonOne fan'']]"
    by (simp add: constructor_unfold query_sync_unfold Let_def dbus_calls_def
        argonone_update_from_settings_def initial_values_def
        g_new0_def argonone_update_view_def icon_name_def status_of_def)
  have b: "argonone_set_fan (\<lambda>k m p. Failed ''no reply'') [] False 0 =
       [Dbus_call ''SetFanControlEnabled'' (Some (VTuple [VBool False])),
        Debug ''DBG: Failed to call SetFanControlEnabled method: no reply'',
        Dbus_call ''SetFanSpeed'' (Some (VTuple [VInt32 0])),
        Debug ''DBG: Failed to call SetFanSpeed method: no reply'']"
    by (simp add: argonone_set_fan_def Let_def method_call_trace)
  show ?thesis
    using a b only_connection_failure_aborts [of Map.empty "''no such service''"
        "\<lambda>k m p. Failed ''no reply''" "[]" False 0]
    by simp
qed

end
